theory Spec2Isabelle
  imports Complex_Main
begin

section \<open>Floating-point values of the data frames\<close>

text \<open>
  The script \<^verbatim>\<open>streamlit_app.py\<close> keeps every price, indicator and forecast
  in pandas columns of dtype float64.  A column entry is modelled as a value of
  \<open>pyfloat\<close>: a finite number, one of the two infinities, or NaN (pandas' marker
  for a missing entry).  The special values follow IEEE 754 as numpy applies it
  to arrays: no operation raises, a division of a non-zero number by zero is an
  infinity, \<open>0 / 0\<close> and \<open>inf - inf\<close> are NaN, and every comparison with NaN
  is false.

  Two arithmetics are defined on these values.  The operations \<open>pf_add\<close>,
  \<open>pf_sub\<close> and \<open>pf_div\<close> of this section compute a finite result exactly;
  they serve the indicator, whose properties below are about which entries are
  NaN, which are infinite and between which bounds the others lie.  The
  operations \<open>fadd\<close>, \<open>fsub\<close> and \<open>fdiv\<close> of the section on rounding round
  every finite result; they serve the recommendation, which compares a mean of
  differences with 0, where the last bit of a result decides.

  The sign of zero is not modelled in either arithmetic.  Where the script
  divides by a zero, the model gives the infinity the sign of the dividend; in
  the script the zero can be \<open>-0.0\<close> (line 83 negates a \<open>0.0\<close>), and the
  infinity then has the other sign.  The properties below say of such a
  quotient only that it is infinite.
\<close>

datatype pyfloat = NaN | NInf | Fin real | PInf

fun pf_neg :: "pyfloat \<Rightarrow> pyfloat" where
  "pf_neg NaN = NaN"
| "pf_neg NInf = PInf"
| "pf_neg (Fin a) = Fin (- a)"
| "pf_neg PInf = NInf"

fun pf_add :: "pyfloat \<Rightarrow> pyfloat \<Rightarrow> pyfloat" where
  "pf_add NaN _ = NaN"
| "pf_add _ NaN = NaN"
| "pf_add (Fin a) (Fin b) = Fin (a + b)"
| "pf_add (Fin a) y = y"
| "pf_add x (Fin b) = x"
| "pf_add PInf PInf = PInf"
| "pf_add NInf NInf = NInf"
| "pf_add PInf NInf = NaN"
| "pf_add NInf PInf = NaN"

definition pf_sub :: "pyfloat \<Rightarrow> pyfloat \<Rightarrow> pyfloat" where
  "pf_sub x y = pf_add x (pf_neg y)"

fun pf_div :: "pyfloat \<Rightarrow> pyfloat \<Rightarrow> pyfloat" where
  "pf_div NaN _ = NaN"
| "pf_div _ NaN = NaN"
| "pf_div (Fin a) (Fin b) =
     (if b \<noteq> 0 then Fin (a / b)
      else if 0 < a then PInf
      else if a < 0 then NInf
      else NaN)"
| "pf_div (Fin a) y = Fin 0"
| "pf_div PInf (Fin b) = (if b < 0 then NInf else PInf)"
| "pf_div NInf (Fin b) = (if b < 0 then PInf else NInf)"
| "pf_div x y = NaN"

fun pf_lt :: "pyfloat \<Rightarrow> pyfloat \<Rightarrow> bool" where
  "pf_lt NaN _ = False"
| "pf_lt _ NaN = False"
| "pf_lt (Fin a) (Fin b) = (a < b)"
| "pf_lt NInf NInf = False"
| "pf_lt NInf _ = True"
| "pf_lt _ NInf = False"
| "pf_lt PInf _ = False"
| "pf_lt _ PInf = True"

definition pf_gt :: "pyfloat \<Rightarrow> pyfloat \<Rightarrow> bool" where
  "pf_gt x y = pf_lt y x"

definition is_inf :: "pyfloat \<Rightarrow> bool" where
  "is_inf x = (x = PInf \<or> x = NInf)"

section \<open>Series operations\<close>

text \<open>
  A pandas Series is modelled as the list of its values in index order.
  \<open>Series.diff()\<close> puts NaN in the first row and \<open>x[i] - x[i-1]\<close> below it.
  The operations of this section use the exact arithmetic; they build the
  columns of the indicator.
\<close>

fun diff :: "pyfloat list \<Rightarrow> pyfloat list" where
  "diff [] = []"
| "diff (x # xs) = NaN # map2 pf_sub xs (x # xs)"

text \<open>
  \<open>s.where(cond, other)\<close> keeps the entry where the condition holds and puts
  \<open>other\<close> where it does not; a comparison with NaN does not hold, so a NaN
  entry is replaced as well.
\<close>

definition where_series :: "pyfloat list \<Rightarrow> bool list \<Rightarrow> pyfloat \<Rightarrow> pyfloat list" where
  "where_series s cond other = map2 (\<lambda>x c. if c then x else other) s cond"

definition pf_sum :: "pyfloat list \<Rightarrow> pyfloat" where
  "pf_sum xs = foldl pf_add (Fin 0) xs"

definition notna :: "pyfloat list \<Rightarrow> pyfloat list" where
  "notna xs = filter (\<lambda>v. v \<noteq> NaN) xs"

text \<open>
  The mean of the entries that are not NaN; the mean of no entries is NaN.
\<close>

definition mean :: "pyfloat list \<Rightarrow> pyfloat" where
  "mean xs = pf_div (pf_sum (notna xs)) (Fin (real (length (notna xs))))"

text \<open>
  \<open>s.rolling(window=w).mean()\<close>: the window of row \<open>i\<close> holds rows
  \<open>i-w+1 .. i\<close>; \<open>min_periods\<close> defaults to \<open>w\<close>, so a row whose window has
  fewer than \<open>w\<close> non-NaN entries is NaN.
\<close>

definition window :: "nat \<Rightarrow> pyfloat list \<Rightarrow> nat \<Rightarrow> pyfloat list" where
  "window w xs i = drop (Suc i - w) (take (Suc i) xs)"

definition rolling_mean :: "nat \<Rightarrow> pyfloat list \<Rightarrow> pyfloat list" where
  "rolling_mean w xs =
     map (\<lambda>i. if length (notna (window w xs i)) < w then NaN
              else mean (window w xs i)) [0..<length xs]"

section \<open>Relative strength index\<close>

definition window_length :: nat where
  "window_length = 14"

definition delta :: "real list \<Rightarrow> pyfloat list" where
  "delta closes = diff (map Fin closes)"

definition gain :: "real list \<Rightarrow> pyfloat list" where
  "gain closes =
     rolling_mean window_length
       (where_series (delta closes) (map (\<lambda>d. pf_gt d (Fin 0)) (delta closes)) (Fin 0))"

definition loss :: "real list \<Rightarrow> pyfloat list" where
  "loss closes =
     rolling_mean window_length
       (map pf_neg (where_series (delta closes) (map (\<lambda>d. pf_lt d (Fin 0)) (delta closes)) (Fin 0)))"

definition rs :: "real list \<Rightarrow> pyfloat list" where
  "rs closes = map2 pf_div (gain closes) (loss closes)"

definition rsi :: "real list \<Rightarrow> pyfloat list" where
  "rsi closes =
     map (\<lambda>r. pf_sub (Fin 100) (pf_div (Fin 100) (pf_add (Fin 1) r))) (rs closes)"

section \<open>Errors and positional reads\<close>

text \<open>
  An exception is a value of \<open>error\<close> that carries the text of the exception.
  \<open>s.iloc[-1]\<close> raises IndexError on an empty Series, and so
  does \<open>index[-1]\<close> on an empty index (with numpy's text); \<open>s.iloc[-n:]\<close> is a
  slice and returns the whole Series when it has fewer than \<open>n\<close> rows.
\<close>

datatype error =
    KeyError string
  | IndexError string
  | ValueError string
  | ProviderError string
  | ModelError string

fun message :: "error \<Rightarrow> string" where
  "message (KeyError m) = m"
| "message (IndexError m) = m"
| "message (ValueError m) = m"
| "message (ProviderError m) = m"
| "message (ModelError m) = m"

fun digits :: "nat \<Rightarrow> string" where
  "digits n =
     (if n < 10 then [char_of (48 + n)]
      else digits (n div 10) @ [char_of (48 + n mod 10)])"

definition iloc_last :: "'a list \<Rightarrow> error + 'a" where
  "iloc_last s =
     (if s = [] then Inl (IndexError ''single positional indexer is out-of-bounds'')
      else Inr (last s))"

definition index_last :: "'a list \<Rightarrow> error + 'a" where
  "index_last ix =
     (if ix = [] then Inl (IndexError ''index -1 is out of bounds for axis 0 with size 0'')
      else Inr (last ix))"

definition lastn :: "nat \<Rightarrow> 'a list \<Rightarrow> 'a list" where
  "lastn n s = drop (length s - n) s"

section \<open>Aggregator: 15-minute candles\<close>

text \<open>
  A price sample is the provider's pair \<open>[timestamp, price]\<close>, the timestamp in
  milliseconds since the epoch.  The script shifts every timestamp by three hours
  and makes it the index of the frame.
\<close>

type_synonym sample = "int \<times> real"

definition make_df :: "sample list \<Rightarrow> sample list" where
  "make_df prices = map (\<lambda>(t, p). (t - 3 * 3600000, p)) prices"

text \<open>
  \<open>df.resample("15T")\<close> sorts the frame by its index (a stable sort), lays
  left-closed, left-labelled bins of 900000 ms from the bin of the first row to
  the bin of the last row, and aggregates each bin; the bins are aligned to
  midnight, hence to multiples of 900000 ms.  The aggregation of a bin without
  rows is a row of NaN, written \<open>None\<close> here, which \<open>dropna\<close> removes.
\<close>

record candle =
  start :: int
  "open" :: real
  high :: real
  low :: real
  close :: real

definition bin_of :: "int \<Rightarrow> int" where
  "bin_of t = t - t mod 900000"

definition bins :: "sample list \<Rightarrow> int list" where
  "bins df =
     (if df = [] then []
      else map (\<lambda>k. bin_of (fst (hd df)) + 900000 * int k)
             [0..<Suc (nat ((bin_of (fst (last df)) - bin_of (fst (hd df))) div 900000))])"

definition agg :: "int \<Rightarrow> real list \<Rightarrow> candle option" where
  "agg b ps =
     (if ps = [] then None
      else Some \<lparr>start = b, open = hd ps, high = fold max (tl ps) (hd ps),
                 low = fold min (tl ps) (hd ps), close = last ps\<rparr>)"

definition resample :: "sample list \<Rightarrow> (int \<times> candle option) list" where
  "resample df =
     map (\<lambda>b. (b, agg b (map snd (filter (\<lambda>r. bin_of (fst r) = b) (sort_key fst df)))))
       (bins (sort_key fst df))"

definition dropna :: "(int \<times> candle option) list \<Rightarrow> candle list" where
  "dropna rows = concat (map (\<lambda>(b, row). case row of None \<Rightarrow> [] | Some c \<Rightarrow> [c]) rows)"

definition ohlc :: "sample list \<Rightarrow> candle list" where
  "ohlc prices = dropna (resample (make_df prices))"

section \<open>Forecaster\<close>

text \<open>
  The ARIMA estimator of statsmodels is outside the script.  It is a parameter of
  the model: a function from the training closes and the number of steps to the
  forecast values, or to the error that the fit raised.
\<close>

type_synonym estimator = "real list \<Rightarrow> nat \<Rightarrow> error + pyfloat list"

definition forecast_steps :: nat where
  "forecast_steps = 8"

definition training_data :: "candle list \<Rightarrow> candle list" where
  "training_data cs = lastn 96 cs"

definition future_timestamps :: "int \<Rightarrow> int list" where
  "future_timestamps t = map (\<lambda>i. t + 15 * 60000 * int i) [1..<forecast_steps + 1]"

text \<open>
  \<open>pd.DataFrame({"timestamp": list, "predicted_close": Series})\<close> raises
  ValueError when the list and the Series differ in length; \<open>set_index\<close> then
  makes the timestamps the index, so a row is a pair of timestamp and value.
\<close>

definition future_df :: "int list \<Rightarrow> pyfloat list \<Rightarrow> error + (int \<times> pyfloat) list" where
  "future_df ts forecast =
     (if length ts \<noteq> length forecast
      then Inl (ValueError (''array length '' @ digits (length ts)
                            @ '' does not match index length '' @ digits (length forecast)))
      else Inr (zip ts forecast))"

section \<open>Rounding to float64\<close>

text \<open>
  \<open>round64\<close> is the rounding of IEEE 754 binary64, to the nearest value with
  ties to the even significand.  A positive number \<open>x\<close> with
  \<open>2^e \<le> x < 2^(e+1)\<close> lies on or between two neighbours of the grid of step
  \<open>2^(e-52)\<close>; below \<open>2^-1022\<close> the step stays \<open>2^-1074\<close> (subnormal
  numbers), and a result of \<open>2^1024\<close> or more is an infinity.
\<close>

type_synonym rounding = "real \<Rightarrow> pyfloat"

definition pow2 :: "int \<Rightarrow> real" where
  "pow2 e = (if 0 \<le> e then 2 ^ nat e else 1 / 2 ^ nat (- e))"

fun exp_up :: "nat \<Rightarrow> real \<Rightarrow> int \<Rightarrow> int" where
  "exp_up 0 x e = e"
| "exp_up (Suc k) x e = (if x < pow2 (e + 1) then e else exp_up k x (e + 1))"

fun exp_down :: "nat \<Rightarrow> real \<Rightarrow> int \<Rightarrow> int" where
  "exp_down 0 x e = e"
| "exp_down (Suc k) x e = (if pow2 e \<le> x then e else exp_down k x (e - 1))"

definition exponent64 :: "real \<Rightarrow> int" where
  "exponent64 x = (if 1 \<le> x then exp_up 1023 x 0 else exp_down 1021 x (- 1))"

definition round_half_even :: "real \<Rightarrow> int" where
  "round_half_even m =
     (if m - of_int \<lfloor>m\<rfloor> < 1 / 2 then \<lfloor>m\<rfloor>
      else if 1 / 2 < m - of_int \<lfloor>m\<rfloor> then \<lfloor>m\<rfloor> + 1
      else if even \<lfloor>m\<rfloor> then \<lfloor>m\<rfloor>
      else \<lfloor>m\<rfloor> + 1)"

definition magnitude64 :: "real \<Rightarrow> real" where
  "magnitude64 x =
     of_int (round_half_even (x / pow2 (exponent64 x - 52))) * pow2 (exponent64 x - 52)"

definition round64 :: rounding where
  "round64 x =
     (if x = 0 then Fin 0
      else if pow2 1024 \<le> magnitude64 \<bar>x\<bar> then (if 0 < x then PInf else NInf)
      else if 0 < x then Fin (magnitude64 \<bar>x\<bar>)
      else Fin (- magnitude64 \<bar>x\<bar>))"

text \<open>
  The float operations, for a rounding \<open>r\<close>: as the exact ones, but a finite
  result is rounded.
\<close>

fun fadd :: "rounding \<Rightarrow> pyfloat \<Rightarrow> pyfloat \<Rightarrow> pyfloat" where
  "fadd r NaN _ = NaN"
| "fadd r _ NaN = NaN"
| "fadd r (Fin a) (Fin b) = r (a + b)"
| "fadd r (Fin a) y = y"
| "fadd r x (Fin b) = x"
| "fadd r PInf PInf = PInf"
| "fadd r NInf NInf = NInf"
| "fadd r PInf NInf = NaN"
| "fadd r NInf PInf = NaN"

definition fsub :: "rounding \<Rightarrow> pyfloat \<Rightarrow> pyfloat \<Rightarrow> pyfloat" where
  "fsub r x y = fadd r x (pf_neg y)"

fun fdiv :: "rounding \<Rightarrow> pyfloat \<Rightarrow> pyfloat \<Rightarrow> pyfloat" where
  "fdiv r NaN _ = NaN"
| "fdiv r _ NaN = NaN"
| "fdiv r (Fin a) (Fin b) =
     (if b \<noteq> 0 then r (a / b)
      else if 0 < a then PInf
      else if a < 0 then NInf
      else NaN)"
| "fdiv r (Fin a) y = Fin 0"
| "fdiv r PInf (Fin b) = (if b < 0 then NInf else PInf)"
| "fdiv r NInf (Fin b) = (if b < 0 then PInf else NInf)"
| "fdiv r x y = NaN"

text \<open>
  The sum of a float array is numpy's: below 8 entries it adds them from left
  to right; up to 128 entries it keeps 8 running sums, one for each position
  modulo 8, adds them pairwise and then adds the entries beyond the last full
  block of 8; above 128 entries it splits the array near the middle, at a
  multiple of 8.
\<close>

fun add_blocks :: "rounding \<Rightarrow> nat \<Rightarrow> pyfloat list \<Rightarrow> pyfloat list \<Rightarrow> pyfloat list" where
  "add_blocks r 0 acc a = acc"
| "add_blocks r (Suc k) acc a = add_blocks r k (map2 (fadd r) acc (take 8 a)) (drop 8 a)"

definition block_sum :: "rounding \<Rightarrow> pyfloat list \<Rightarrow> pyfloat" where
  "block_sum r a =
     (let n = length a;
          acc = add_blocks r ((n - n mod 8) div 8 - 1) (take 8 a) (drop 8 a);
          res = fadd r (fadd r (fadd r (acc ! 0) (acc ! 1)) (fadd r (acc ! 2) (acc ! 3)))
                       (fadd r (fadd r (acc ! 4) (acc ! 5)) (fadd r (acc ! 6) (acc ! 7)))
      in foldl (fadd r) res (drop (n - n mod 8) a))"

function pairwise_sum :: "rounding \<Rightarrow> pyfloat list \<Rightarrow> pyfloat" where
  "pairwise_sum r a =
     (if length a < 8 then foldl (fadd r) (Fin 0) a
      else if length a \<le> 128 then block_sum r a
      else fadd r (pairwise_sum r (take (length a div 2 - length a div 2 mod 8) a))
                  (pairwise_sum r (drop (length a div 2 - length a div 2 mod 8) a)))"
  by pat_completeness auto
termination
  by (relation "measure (\<lambda>(r, a). length a)") auto

text \<open>
  The numeric library under the script, as far as the recommendation uses it:
  the rounding of a single operation and the sum of an array.  \<open>numpy64\<close> is the
  library the script runs on.  The properties of the recommendation are stated
  for every such library, so they do not depend on the order in which a sum is
  taken.
\<close>

record numerics =
  fl :: rounding
  array_sum :: "pyfloat list \<Rightarrow> pyfloat"

definition numpy64 :: numerics where
  "numpy64 = \<lparr>fl = round64, array_sum = pairwise_sum round64\<rparr>"

text \<open>
  \<open>Series.diff()\<close> and \<open>Series.mean()\<close> on floats.  The mean skips NaN
  (\<open>skipna=True\<close>): pandas puts 0 in place of every NaN, sums the array and
  divides by the number of entries that are not NaN; the mean of no entries is
  NaN.
\<close>

fun series_diff :: "numerics \<Rightarrow> pyfloat list \<Rightarrow> pyfloat list" where
  "series_diff np [] = []"
| "series_diff np (x # xs) = NaN # map2 (fsub (fl np)) xs (x # xs)"

definition series_mean :: "numerics \<Rightarrow> pyfloat list \<Rightarrow> pyfloat" where
  "series_mean np s =
     (if notna s = [] then NaN
      else fdiv (fl np) (array_sum np (map (\<lambda>v. if v = NaN then Fin 0 else v) s))
             (Fin (real (length (notna s)))))"

section \<open>Presenter\<close>

text \<open>
  \<open>Series.max()\<close> skips NaN and is NaN when nothing is left.
  \<open>Series.idxmax()\<close> is the index label of the first row that holds the
  maximum; when every row is NaN, pandas 2 warns and returns the missing value
  of the index, which is \<open>NaT\<close> for timestamps (here \<open>None\<close>).  The frame of
  the forecast has eight rows whenever the script reaches this call; on a
  Series without rows pandas raises instead.
\<close>

definition pf_max :: "pyfloat \<Rightarrow> pyfloat \<Rightarrow> pyfloat" where
  "pf_max a b = (if pf_lt a b then b else a)"

definition series_max :: "pyfloat list \<Rightarrow> pyfloat" where
  "series_max s = (case notna s of [] \<Rightarrow> NaN | y # ys \<Rightarrow> foldl pf_max y ys)"

definition idxmax :: "(int \<times> pyfloat) list \<Rightarrow> int option" where
  "idxmax df =
     (if series_max (map snd df) = NaN then None
      else map_option fst (find (\<lambda>r. snd r = series_max (map snd df)) df))"

definition recent_moving_avg :: "numerics \<Rightarrow> candle list \<Rightarrow> pyfloat" where
  "recent_moving_avg np cs = series_mean np (map Fin (lastn 4 (map close cs)))"

text \<open>
  The three texts of the recommendation, as the bytes of their UTF-8 encoding.
\<close>

definition COMPRAR :: string where
  "COMPRAR = ''Recomenda'' @ [CHR 0xC3, CHR 0xA7, CHR 0xC3, CHR 0xA3] @ ''o: COMPRAR''"

definition VENDER :: string where
  "VENDER = ''Recomenda'' @ [CHR 0xC3, CHR 0xA7, CHR 0xC3, CHR 0xA3] @ ''o: VENDER''"

definition RETER :: string where
  "RETER = ''Recomenda'' @ [CHR 0xC3, CHR 0xA7, CHR 0xC3, CHR 0xA3] @ ''o: RETER''"

text \<open>
  Python's \<open>and\<close> evaluates \<open>forecast.iloc[-1]\<close> only when the comparison of the
  trend before it holds.
\<close>

definition buy_condition :: "numerics \<Rightarrow> candle list \<Rightarrow> pyfloat list \<Rightarrow> error + bool" where
  "buy_condition np cs forecast =
     (if pf_gt (series_mean np (series_diff np forecast)) (Fin 0)
      then (case iloc_last forecast of
              Inl e \<Rightarrow> Inl e
            | Inr x \<Rightarrow> Inr (pf_lt x (recent_moving_avg np cs)))
      else Inr False)"

definition sell_condition :: "numerics \<Rightarrow> candle list \<Rightarrow> pyfloat list \<Rightarrow> error + bool" where
  "sell_condition np cs forecast =
     (if pf_lt (series_mean np (series_diff np forecast)) (Fin 0)
      then (case iloc_last forecast of
              Inl e \<Rightarrow> Inl e
            | Inr x \<Rightarrow> Inr (pf_gt x (recent_moving_avg np cs)))
      else Inr False)"

definition recommendation :: "numerics \<Rightarrow> candle list \<Rightarrow> pyfloat list \<Rightarrow> error + string" where
  "recommendation np cs forecast =
     (case buy_condition np cs forecast of
        Inl e \<Rightarrow> Inl e
      | Inr True \<Rightarrow> Inr COMPRAR
      | Inr False \<Rightarrow>
          (case sell_condition np cs forecast of
             Inl e \<Rightarrow> Inl e
           | Inr True \<Rightarrow> Inr VENDER
           | Inr False \<Rightarrow> Inr RETER))"

section \<open>The script\<close>

text \<open>
  The provider is a parameter as well: given the coin identifier, the currency
  and the two ends of the time range in seconds, it returns the list
  \<open>historical_data["prices"]\<close> or the error that the call raised.  A run writes
  elements to the page in order and stops at the first error, which the script
  never catches.  The elements before the selection (title, introduction, select
  box) and the footer are left out.
\<close>

type_synonym provider = "string \<Rightarrow> string \<Rightarrow> int \<Rightarrow> int \<Rightarrow> error + sample list"

definition cryptocurrencies :: "(string \<times> string) list" where
  "cryptocurrencies =
     [(''Bitcoin'', ''bitcoin''),
      (''Ethereum'', ''ethereum''),
      (''XRP'', ''ripple''),
      (''Kaspa'', ''kaspa''),
      (''Binance Coin'', ''binancecoin''),
      (''Cardano'', ''cardano'')]"

record figure =
  ax_candlestick :: "candle list"
  ax_rsi :: "(int \<times> pyfloat) list"
  ax_rsi_text :: pyfloat
  ax_combined_history :: "(int \<times> real) list"
  ax_combined_forecast :: "(int \<times> pyfloat) list"

datatype element =
    Pyplot figure
  | Markdown_max pyfloat int
  | Markdown_recommendation string

record frames =
  candles :: "candle list"
  rsi_column :: "pyfloat list"
  latest_rsi :: pyfloat
  forecast :: "pyfloat list"
  future :: "(int \<times> pyfloat) list"
  max_future_price :: pyfloat
  max_future_time :: "int option"

text \<open>Lines 36 to 111: everything that is computed before the figure is drawn.\<close>

definition compute :: "provider \<Rightarrow> estimator \<Rightarrow> int \<Rightarrow> string \<Rightarrow> error + frames" where
  "compute cg arima end_timestamp selected_crypto =
     (case map_of cryptocurrencies selected_crypto of
        None \<Rightarrow> Inl (KeyError selected_crypto)
      | Some crypto_id \<Rightarrow>
     (case cg crypto_id ''usd'' (end_timestamp - 30 * 3600) end_timestamp of
        Inl e \<Rightarrow> Inl e
      | Inr prices \<Rightarrow>
     (case iloc_last (rsi (map close (ohlc prices))) of
        Inl e \<Rightarrow> Inl e
      | Inr latest \<Rightarrow>
     (case arima (map close (training_data (ohlc prices))) forecast_steps of
        Inl e \<Rightarrow> Inl e
      | Inr fc \<Rightarrow>
     (case index_last (map start (training_data (ohlc prices))) of
        Inl e \<Rightarrow> Inl e
      | Inr t \<Rightarrow>
     (case future_df (future_timestamps t) fc of
        Inl e \<Rightarrow> Inl e
      | Inr fdf \<Rightarrow>
          Inr \<lparr>candles = ohlc prices,
               rsi_column = rsi (map close (ohlc prices)),
               latest_rsi = latest,
               forecast = fc,
               future = fdf,
               max_future_price = series_max (map snd fdf),
               max_future_time = idxmax fdf\<rparr>))))))"

definition draw :: "frames \<Rightarrow> figure" where
  "draw fr =
     \<lparr>ax_candlestick = lastn 16 (candles fr),
      ax_rsi = zip (map start (lastn 16 (candles fr))) (lastn 16 (rsi_column fr)),
      ax_rsi_text = latest_rsi fr,
      ax_combined_history = map (\<lambda>c. (start c, close c)) (lastn 16 (candles fr)),
      ax_combined_forecast = future fr\<rparr>"

text \<open>
  Lines 113 to 168: the figure, the text of the forecast maximum (whose
  \<open>strftime\<close> raises ValueError on \<open>NaT\<close>) and the recommendation.
\<close>

definition present :: "frames \<Rightarrow> element list \<times> error option" where
  "present fr =
     (case max_future_time fr of
        None \<Rightarrow> ([Pyplot (draw fr)],
                 Some (ValueError ''NaTType does not support strftime''))
      | Some t \<Rightarrow>
          (case recommendation numpy64 (candles fr) (forecast fr) of
             Inl e \<Rightarrow> ([Pyplot (draw fr), Markdown_max (max_future_price fr) t], Some e)
           | Inr r \<Rightarrow> ([Pyplot (draw fr), Markdown_max (max_future_price fr) t,
                        Markdown_recommendation r], None)))"

definition run :: "provider \<Rightarrow> estimator \<Rightarrow> int \<Rightarrow> string \<Rightarrow> element list \<times> error option" where
  "run cg arima end_timestamp selected_crypto =
     (case compute cg arima end_timestamp selected_crypto of
        Inl e \<Rightarrow> ([], Some e)
      | Inr fr \<Rightarrow> present fr)"

text \<open>
  An error identifies a coin when the name occurs in its text:
  \<open>mentions name text\<close> holds when \<open>name\<close> is a contiguous part of \<open>text\<close>.
\<close>

definition mentions :: "string \<Rightarrow> string \<Rightarrow> bool" where
  "mentions name text = (\<exists>i \<in> set [0..<Suc (length text)]. take (length name) (drop i text) = name)"

section \<open>Example collaborators\<close>

text \<open>
  A provider that answers every request with an empty price list, a provider
  with three samples in two non-adjacent quarters of an hour, an estimator
  that repeats the last training close, and a table of five candles whose last
  four closes have the mean 11.
\<close>

definition no_prices :: provider where
  "no_prices crypto_id vs_currency from_timestamp to_timestamp = Inr []"

definition three_prices :: provider where
  "three_prices crypto_id vs_currency from_timestamp to_timestamp =
     Inr [(1700000100000, 37000), (1700000400000, 37010), (1700002000000, 36990)]"

definition naive_forecast :: estimator where
  "naive_forecast closes steps =
     (if closes = [] then Inl (ModelError ''empty series'')
      else Inr (replicate steps (Fin (last closes))))"

definition five_candles :: "candle list" where
  "five_candles =
     [\<lparr>start = 0, open = 48, high = 51, low = 47, close = 50\<rparr>,
      \<lparr>start = 900000, open = 50, high = 50, low = 12, close = 12\<rparr>,
      \<lparr>start = 1800000, open = 12, high = 12, low = 10, close = 10\<rparr>,
      \<lparr>start = 2700000, open = 10, high = 11, low = 10, close = 11\<rparr>,
      \<lparr>start = 3600000, open = 11, high = 12, low = 10, close = 11\<rparr>]"

text \<open>
  Two forecasts in float64: one that ends where it began after moves whose
  differences do not sum to 0 in float64, and a falling one.
\<close>

definition returning_forecast :: "pyfloat list" where
  "returning_forecast = map round64 [5.1, 8.0, 2.4, 5.1, 8.2, 5.4, 3.9, 5.1]"

definition falling_forecast :: "pyfloat list" where
  "falling_forecast = map round64 [20, 19, 18, 17, 16, 15, 14, 13]"

section \<open>Facts about the series operations\<close>

lemma length_diff: "length (diff xs) = length xs"
  by (cases xs) simp_all

lemma diff_map_Fin_nth:
  "i < length cs \<Longrightarrow>
   diff (map Fin cs) ! i = (if i = 0 then NaN else Fin (cs ! i - cs ! (i - 1)))"
  by (cases cs) (auto simp: pf_sub_def nth_Cons')

lemma pf_sum_Fin_aux: "foldl pf_add (Fin a) (map Fin us) = Fin (a + sum_list us)"
  by (induction us arbitrary: a) (simp_all add: add.assoc)

lemma pf_sum_Fin: "pf_sum (map Fin us) = Fin (sum_list us)"
  by (simp add: pf_sum_def pf_sum_Fin_aux)

lemma notna_Fin: "notna (map Fin us) = map Fin us"
  by (simp add: notna_def)

lemma window_Fin: "window w (map Fin us) i = map Fin (drop (Suc i - w) (take (Suc i) us))"
  by (simp add: window_def take_map drop_map)

text \<open>
  On a column of finite numbers the rolling mean is NaN in the first \<open>w - 1\<close>
  rows and the plain mean of the last \<open>w\<close> entries below them.
\<close>

lemma rolling_mean_Fin:
  assumes "0 < w" "i < length us"
  shows "rolling_mean w (map Fin us) ! i =
           (if Suc i < w then NaN
            else Fin (sum_list (drop (Suc i - w) (take (Suc i) us)) / real w))"
proof -
  have len: "length (drop (Suc i - w) (take (Suc i) us)) = (if Suc i < w then Suc i else w)"
    using assms by auto
  show ?thesis
    using assms
    by (simp add: rolling_mean_def window_Fin notna_Fin mean_def pf_sum_Fin len)
qed

section \<open>Facts about the relative strength index\<close>

lemma length_delta: "length (delta cs) = length cs"
  by (simp add: delta_def length_diff)

lemma gain_input_Fin:
  "where_series (delta cs) (map (\<lambda>d. pf_gt d (Fin 0)) (delta cs)) (Fin 0) =
     map Fin (map (\<lambda>i. if i = 0 then 0 else max (cs ! i - cs ! (i - 1)) 0) [0..<length cs])"
  by (rule nth_equalityI)
     (auto simp: where_series_def length_diff delta_def diff_map_Fin_nth pf_gt_def)

lemma loss_input_Fin:
  "map pf_neg (where_series (delta cs) (map (\<lambda>d. pf_lt d (Fin 0)) (delta cs)) (Fin 0)) =
     map Fin (map (\<lambda>i. if i = 0 then 0 else max (cs ! (i - 1) - cs ! i) 0) [0..<length cs])"
  by (rule nth_equalityI)
     (auto simp: where_series_def length_diff delta_def diff_map_Fin_nth)

lemma window_sum_nonneg:
  assumes "\<forall>u \<in> set us. (0::real) \<le> u"
  shows "0 \<le> sum_list (drop a (take b us))"
proof (rule sum_list_nonneg)
  fix x assume "x \<in> set (drop a (take b us))"
  then have "x \<in> set us" by (meson in_set_dropD in_set_takeD)
  with assms show "0 \<le> x" by blast
qed

lemma rolling_mean_nonneg:
  assumes "0 < w" "i < length us" "\<forall>u \<in> set us. 0 \<le> u"
  shows "(Suc i < w \<and> rolling_mean w (map Fin us) ! i = NaN)
       \<or> (w \<le> Suc i \<and> (\<exists>m\<ge>0. rolling_mean w (map Fin us) ! i = Fin m))"
proof (cases "Suc i < w")
  case True
  then show ?thesis using assms by (simp add: rolling_mean_Fin)
next
  case False
  have "0 \<le> sum_list (drop (Suc i - w) (take (Suc i) us)) / real w"
    using window_sum_nonneg [OF assms(3)] by simp
  then show ?thesis using False assms(1,2) by (simp add: rolling_mean_Fin)
qed

lemma gain_cases:
  assumes "i < length cs"
  shows "(Suc i < 14 \<and> gain cs ! i = NaN) \<or> (14 \<le> Suc i \<and> (\<exists>g\<ge>0. gain cs ! i = Fin g))"
  unfolding gain_def gain_input_Fin window_length_def
  by (rule rolling_mean_nonneg) (use assms in auto)

lemma loss_cases:
  assumes "i < length cs"
  shows "(Suc i < 14 \<and> loss cs ! i = NaN) \<or> (14 \<le> Suc i \<and> (\<exists>l\<ge>0. loss cs ! i = Fin l))"
  unfolding loss_def loss_input_Fin window_length_def
  by (rule rolling_mean_nonneg) (use assms in auto)

lemma length_rolling_mean: "length (rolling_mean w xs) = length xs"
  by (simp add: rolling_mean_def)

lemma length_gain: "length (gain cs) = length cs"
  by (simp add: gain_def length_rolling_mean where_series_def length_delta)

lemma length_loss: "length (loss cs) = length cs"
  by (simp add: loss_def length_rolling_mean where_series_def length_delta)

lemma length_rs: "length (rs cs) = length cs"
  by (simp add: rs_def length_gain length_loss)

lemma length_rsi: "length (rsi cs) = length cs"
  by (simp add: rsi_def length_rs)

lemma rs_nth: "i < length cs \<Longrightarrow> rs cs ! i = pf_div (gain cs ! i) (loss cs ! i)"
  by (simp add: rs_def length_gain length_loss)

lemma rsi_nth:
  "i < length cs \<Longrightarrow>
   rsi cs ! i = pf_sub (Fin 100) (pf_div (Fin 100) (pf_add (Fin 1) (rs cs ! i)))"
  by (simp add: rsi_def length_rs)


section \<open>Facts about the aggregator\<close>

lemma sorted_bins: "sorted_wrt (<) (bins df)"
proof (cases "df = []")
  case True
  then show ?thesis by (simp add: bins_def)
next
  case False
  have "sorted_wrt (<) (map (\<lambda>k. bin_of (fst (hd df)) + 900000 * int k) [0..<n])" for n
    by (rule sorted_wrt_map_mono [OF sorted_wrt_upt]) simp
  with False show ?thesis by (simp add: bins_def del: upt_Suc)
qed

lemma starts_dropna:
  "map start (dropna (map (\<lambda>b. (b, agg b (g b))) bs)) = filter (\<lambda>b. g b \<noteq> []) bs"
  by (induction bs) (simp_all add: dropna_def agg_def)

lemma starts_ohlc:
  "map start (ohlc prices) =
     filter (\<lambda>b. map snd (filter (\<lambda>r. bin_of (fst r) = b) (sort_key fst (make_df prices))) \<noteq> [])
       (bins (sort_key fst (make_df prices)))"
  unfolding ohlc_def resample_def by (rule starts_dropna)

lemma sorted_starts: "sorted_wrt (<) (map start (ohlc prices))"
  unfolding starts_ohlc by (rule sorted_wrt_filter [OF sorted_bins])

lemma start_has_sample:
  assumes "b \<in> set (map start (ohlc prices))"
  shows "\<exists>s \<in> set prices. bin_of (fst s - 3 * 3600000) = b"
proof -
  from assms have "filter (\<lambda>r. bin_of (fst r) = b) (sort_key fst (make_df prices)) \<noteq> []"
    unfolding starts_ohlc by auto
  then obtain r where "r \<in> set (sort_key fst (make_df prices))" "bin_of (fst r) = b"
    by (auto simp: filter_empty_conv)
  then have "r \<in> set (make_df prices)" "bin_of (fst r) = b" by simp_all
  then obtain s where "s \<in> set prices" "r = (fst s - 3 * 3600000, snd s)"
    by (auto simp: make_df_def)
  with \<open>bin_of (fst r) = b\<close> show ?thesis by auto
qed

lemma ohlc_Nil: "ohlc [] = []"
  by (simp add: ohlc_def make_df_def resample_def bins_def dropna_def)

lemma rsi_Nil: "rsi [] = []"
  using length_rsi [of "[]"] by simp

section \<open>Facts about the forecast frame and the presenter\<close>

lemma length_future_timestamps: "length (future_timestamps t) = 8"
  by (simp add: future_timestamps_def forecast_steps_def)

lemma future_timestamps_nth:
  "k < 8 \<Longrightarrow> future_timestamps t ! k = t + 15 * 60000 * int (Suc k)"
  by (simp add: future_timestamps_def forecast_steps_def nth_map_upt del: upt_Suc)





lemma last_lastn: "xs \<noteq> [] \<Longrightarrow> 0 < n \<Longrightarrow> lastn n xs \<noteq> [] \<and> last (lastn n xs) = last xs"
  by (cases xs) (auto simp: lastn_def)

lemma strings_distinct: "COMPRAR \<noteq> VENDER" "COMPRAR \<noteq> RETER" "VENDER \<noteq> RETER"
  by (simp_all add: COMPRAR_def VENDER_def RETER_def)

lemma pf_lt_asym: "pf_lt a b \<Longrightarrow> \<not> pf_lt b a"
  by (cases a; cases b) auto

lemma pf_lt_irrefl: "\<not> pf_lt a a"
  by (cases a) auto

section \<open>Facts about rounding\<close>

text \<open>
  The two searches for the exponent, unfolded on a numeral, and the rules that
  evaluate a rounding and a sum of the library on given numbers.
\<close>

lemma exp_up_unfold:
  "exp_up k x e = (if k = 0 then e else if x < pow2 (e + 1) then e else exp_up (k - 1) x (e + 1))"
  by (cases k) simp_all

lemma exp_down_unfold:
  "exp_down k x e = (if k = 0 then e else if pow2 e \<le> x then e else exp_down (k - 1) x (e - 1))"
  by (cases k) simp_all

lemmas round64_eval = round64_def magnitude64_def exponent64_def pow2_def round_half_even_def
  exp_up_unfold exp_down_unfold

lemmas numpy64_eval = numpy64_def series_mean_def notna_def fsub_def block_sum_def
  pairwise_sum.simps Let_def

lemma pow2_pos: "0 < pow2 e"
  by (simp add: pow2_def)

lemma round_half_even_nonneg: "0 \<le> m \<Longrightarrow> 0 \<le> round_half_even m"
  by (simp add: round_half_even_def)

lemma magnitude64_nonneg: "0 \<le> x \<Longrightarrow> 0 \<le> magnitude64 x"
  unfolding magnitude64_def
  by (intro mult_nonneg_nonneg) (simp_all add: round_half_even_nonneg pow2_pos less_imp_le)

lemma round64_sign:
  "(pf_gt (round64 x) (Fin 0) \<longrightarrow> 0 < x) \<and> (pf_lt (round64 x) (Fin 0) \<longrightarrow> x < 0)"
  using magnitude64_nonneg [of "\<bar>x\<bar>"]
  by (auto simp: round64_def pf_gt_def)

lemma returning_trend:
  "series_mean numpy64 (series_diff numpy64 returning_forecast)
     = Fin (2573485501354569 / 40564819207303340847894502572032)"
  by (simp add: returning_forecast_def round64_eval numpy64_eval)

lemma falling_trend:
  "series_mean numpy64 (series_diff numpy64 falling_forecast) = Fin (- 1)"
  by (simp add: falling_forecast_def round64_eval numpy64_eval)

lemma flat_trend:
  "series_mean numpy64 (series_diff numpy64 [Fin 5, Fin 5, Fin 5, Fin 5, Fin 5, Fin 5, Fin 5, Fin 5]) = Fin 0"
  by (simp add: round64_eval numpy64_eval)

section \<open>The claims\<close>

text \<open>
  C3.  For the sixteen closes 100, 101, ..., 115 the rolling average loss of the
  last candle is 0 and its rolling average gain is positive; the division
  \<open>gain / loss\<close> raises nothing, and the latest RSI, read with \<open>iloc[-1]\<close>, is
  100.
\<close>

theorem rsi_strictly_increasing_closes:
  "loss [100, 101, 102, 103, 104, 105, 106, 107, 108, 109, 110, 111, 112, 113, 114, 115] ! 15
     = Fin 0
   \<and> gain [100, 101, 102, 103, 104, 105, 106, 107, 108, 109, 110, 111, 112, 113, 114, 115] ! 15
     = Fin 1
   \<and> iloc_last
       (rsi [100, 101, 102, 103, 104, 105, 106, 107, 108, 109, 110, 111, 112, 113, 114, 115])
     = Inr (Fin 100)"
  by code_simp

text \<open>
  C10, as stated: the mean of the successive differences of eight forecast
  values is \<open>(f7 - f0) / 7\<close>, hence positive exactly when \<open>f7 > f0\<close>.  It
  fails in float64 for the forecast 5.1, 8.0, 2.4, 5.1, 8.2, 5.4, 3.9, 5.1: the
  last value equals the first, and the mean of the differences is
  \<open>2573485501354569 / 2^105\<close>, about \<open>6.3e-17\<close>, which is above 0.
\<close>

theorem returning_forecast_positive_trend:
  "last returning_forecast = hd returning_forecast
   \<and> \<not> pf_gt (last returning_forecast) (hd returning_forecast)
   \<and> series_mean numpy64 (series_diff numpy64 returning_forecast)
       = Fin (2573485501354569 / 2 ^ 105)
   \<and> pf_gt (series_mean numpy64 (series_diff numpy64 returning_forecast)) (Fin 0)
   \<and> series_mean numpy64 (series_diff numpy64 returning_forecast) \<noteq> Fin 0"
proof -
  have "last returning_forecast = hd returning_forecast"
    by (simp add: returning_forecast_def)
  moreover from this have "\<not> pf_gt (last returning_forecast) (hd returning_forecast)"
    by (simp add: pf_gt_def pf_lt_irrefl)
  moreover have "series_mean numpy64 (series_diff numpy64 returning_forecast)
       = Fin (2573485501354569 / 2 ^ 105)"
    by (simp add: returning_trend)
  moreover have "pf_gt (series_mean numpy64 (series_diff numpy64 returning_forecast)) (Fin 0)"
    by (simp add: returning_trend pf_gt_def)
  moreover have "series_mean numpy64 (series_diff numpy64 returning_forecast) \<noteq> Fin 0"
    by (simp add: returning_trend)
  ultimately show ?thesis by (intro conjI)
qed

text \<open>
  C10, amended.  For every numeric library and eight finite forecast values:
  when each of the seven differences is computed without rounding and the sum
  of the array of differences is exact, the mean of the successive differences
  is the rounded quotient \<open>(f7 - f0) / 7\<close>.  When moreover no rounding turns a
  number of one sign into a number of the other sign, and the quotient rounds
  neither to 0 nor to NaN unless \<open>f7 = f0\<close>, the mean is above 0 exactly when
  \<open>f7 > f0\<close> and below 0 exactly when \<open>f7 < f0\<close>.
\<close>

theorem mean_diff_telescopes_when_exact:
  fixes f0 f1 f2 f3 f4 f5 f6 f7 :: real
  defines "fc \<equiv> map Fin [f0, f1, f2, f3, f4, f5, f6, f7]"
  defines "ds \<equiv> [f1 - f0, f2 - f1, f3 - f2, f4 - f3, f5 - f4, f6 - f5, f7 - f6]"
  assumes differences: "series_diff np fc = NaN # map Fin ds"
    and total: "array_sum np (Fin 0 # map Fin ds) = Fin (sum_list ds)"
    and sign: "\<And>x. (pf_gt (fl np x) (Fin 0) \<longrightarrow> 0 < x) \<and> (pf_lt (fl np x) (Fin 0) \<longrightarrow> x < 0)"
    and quotient: "f7 \<noteq> f0 \<longrightarrow>
                     fl np ((f7 - f0) / 7) \<noteq> NaN \<and> fl np ((f7 - f0) / 7) \<noteq> Fin 0"
  shows "series_mean np (series_diff np fc) = fl np ((f7 - f0) / 7)
       \<and> (pf_gt (series_mean np (series_diff np fc)) (Fin 0) \<longleftrightarrow> f0 < f7)
       \<and> (pf_lt (series_mean np (series_diff np fc)) (Fin 0) \<longleftrightarrow> f7 < f0)"
proof -
  let ?y = "(f7 - f0) / 7"
  have s: "sum_list ds = f7 - f0" by (simp add: ds_def)
  have "series_mean np (NaN # map Fin ds) =
          fdiv (fl np) (array_sum np (Fin 0 # map Fin ds)) (Fin 7)"
    by (simp add: series_mean_def notna_def ds_def)
  then have m: "series_mean np (series_diff np fc) = fl np ?y"
    by (simp add: differences total s)
  have up: "pf_gt (fl np ?y) (Fin 0)" if "f0 < f7"
  proof -
    from that have y: "0 < ?y" by simp
    with sign [of ?y] have n: "\<not> pf_lt (fl np ?y) (Fin 0)" by auto
    from that quotient have "fl np ?y \<noteq> NaN" "fl np ?y \<noteq> Fin 0" by auto
    with n show ?thesis by (cases "fl np ?y") (auto simp: pf_gt_def)
  qed
  have down: "pf_lt (fl np ?y) (Fin 0)" if "f7 < f0"
  proof -
    from that have y: "?y < 0" by simp
    with sign [of ?y] have n: "\<not> pf_gt (fl np ?y) (Fin 0)" by auto
    from that quotient have "fl np ?y \<noteq> NaN" "fl np ?y \<noteq> Fin 0" by auto
    with n show ?thesis by (cases "fl np ?y") (auto simp: pf_gt_def)
  qed
  have "pf_gt (fl np ?y) (Fin 0) \<longleftrightarrow> f0 < f7"
    using sign [of ?y] up by auto
  moreover have "pf_lt (fl np ?y) (Fin 0) \<longleftrightarrow> f7 < f0"
    using sign [of ?y] down by auto
  ultimately show ?thesis using m by simp
qed

theorem mean_diff_telescopes_when_exact_witness:
  "series_diff numpy64 (map Fin [100, 101.5, 103, 102.25, 104, 105.5, 106, 107.75])
     = NaN # map Fin [3 / 2, 3 / 2, - (3 / 4), 7 / 4, 3 / 2, 1 / 2, 7 / 4]
   \<and> array_sum numpy64 (Fin 0 # map Fin [3 / 2, 3 / 2, - (3 / 4), 7 / 4, 3 / 2, 1 / 2, 7 / 4])
     = Fin (31 / 4)
   \<and> series_mean numpy64 (series_diff numpy64 (map Fin [100, 101.5, 103, 102.25, 104, 105.5, 106, 107.75]))
     = round64 ((107.75 - 100) / 7)
   \<and> pf_gt (series_mean numpy64 (series_diff numpy64 (map Fin [100, 101.5, 103, 102.25, 104, 105.5, 106, 107.75]))) (Fin 0)"
proof -
  have h1: "series_diff numpy64 (map Fin [100, 101.5, 103, 102.25, 104, 105.5, 106, 107.75])
              = NaN # map Fin [101.5 - 100, 103 - 101.5, 102.25 - 103, 104 - 102.25, 105.5 - 104, 106 - 105.5, 107.75 - 106]"
    by (simp add: round64_eval numpy64_eval)
  have h2: "array_sum numpy64 (Fin 0 # map Fin [101.5 - 100, 103 - 101.5, 102.25 - 103, 104 - 102.25, 105.5 - 104, 106 - 105.5, 107.75 - 106])
              = Fin (sum_list [101.5 - 100, 103 - 101.5, 102.25 - 103, 104 - 102.25, 105.5 - 104, 106 - 105.5, 107.75 - 106])"
    by (simp add: round64_eval numpy64_eval)
  have h3: "\<And>x. (pf_gt (fl numpy64 x) (Fin 0) \<longrightarrow> 0 < x) \<and> (pf_lt (fl numpy64 x) (Fin 0) \<longrightarrow> x < 0)"
    using round64_sign by (simp add: numpy64_def)
  have h4: "(107.75 :: real) \<noteq> 100 \<longrightarrow>
              fl numpy64 ((107.75 - 100) / 7) \<noteq> NaN \<and> fl numpy64 ((107.75 - 100) / 7) \<noteq> Fin 0"
    by (simp add: round64_eval numpy64_eval)
  note t = mean_diff_telescopes_when_exact [OF h1 h2 h3 h4]
  have d: "series_diff numpy64 (map Fin [100, 101.5, 103, 102.25, 104, 105.5, 106, 107.75])
     = NaN # map Fin [3 / 2, 3 / 2, - (3 / 4), 7 / 4, 3 / 2, 1 / 2, 7 / 4]"
    using h1 by simp
  have a: "array_sum numpy64 (Fin 0 # map Fin [3 / 2, 3 / 2, - (3 / 4), 7 / 4, 3 / 2, 1 / 2, 7 / 4])
     = Fin (31 / 4)"
    using h2 by simp
  have m: "series_mean numpy64 (series_diff numpy64 (map Fin [100, 101.5, 103, 102.25, 104, 105.5, 106, 107.75]))
     = round64 ((107.75 - 100) / 7)"
    using conjunct1 [OF t] by (simp add: numpy64_def)
  have p: "pf_gt (series_mean numpy64 (series_diff numpy64 (map Fin [100, 101.5, 103, 102.25, 104, 105.5, 106, 107.75]))) (Fin 0)"
    using conjunct1 [OF conjunct2 [OF t]] by simp
  from d a m p show ?thesis by (intro conjI)
qed



text \<open>
  C4, as stated: wherever the rolling average loss is 0, the ratio \<open>rs\<close> and the
  RSI are NaN.  It fails at the last of the sixteen closes 100, ..., 115: the
  loss is 0, the ratio is an infinity (of either sign) and the RSI is 100.
\<close>

theorem zero_loss_defined_rsi:
  "15 < length [100, 101, 102, 103, 104, 105, 106, 107, 108, 109, 110, 111, 112, 113, 114, 115 :: real]
   \<and> loss [100, 101, 102, 103, 104, 105, 106, 107, 108, 109, 110, 111, 112, 113, 114, 115] ! 15 = Fin 0
   \<and> is_inf (rs [100, 101, 102, 103, 104, 105, 106, 107, 108, 109, 110, 111, 112, 113, 114, 115] ! 15)
   \<and> rs [100, 101, 102, 103, 104, 105, 106, 107, 108, 109, 110, 111, 112, 113, 114, 115] ! 15 \<noteq> NaN
   \<and> rsi [100, 101, 102, 103, 104, 105, 106, 107, 108, 109, 110, 111, 112, 113, 114, 115] ! 15 = Fin 100
   \<and> rsi [100, 101, 102, 103, 104, 105, 106, 107, 108, 109, 110, 111, 112, 113, 114, 115] ! 15 \<noteq> NaN"
  by code_simp

text \<open>
  C4, amended.  Where the rolling average loss is 0, the rolling average gain is
  a finite number that is not negative.  If the gain is 0 as well, the ratio and
  the RSI are NaN; if the gain is positive, the ratio is infinite and the RSI is
  100.  Nothing is raised in either case.
\<close>

theorem zero_loss:
  assumes "i < length cs" "loss cs ! i = Fin 0"
  shows "(gain cs ! i = Fin 0 \<and> rs cs ! i = NaN \<and> rsi cs ! i = NaN)
       \<or> ((\<exists>g>0. gain cs ! i = Fin g) \<and> is_inf (rs cs ! i) \<and> rsi cs ! i = Fin 100)"
proof -
  from gain_cases [OF assms(1)] loss_cases [OF assms(1)] assms(2)
  obtain g where g: "gain cs ! i = Fin g" "0 \<le> g"
    by auto
  show ?thesis
  proof (cases "g = 0")
    case True
    with g assms show ?thesis by (simp add: rsi_nth rs_nth pf_sub_def)
  next
    case False
    with g have "0 < g" by simp
    with g assms show ?thesis by (simp add: rsi_nth rs_nth pf_sub_def is_inf_def)
  qed
qed

theorem zero_loss_witness:
  "15 < length [100, 101, 102, 103, 104, 105, 106, 107, 108, 109, 110, 111, 112, 113, 114, 115 :: real]
   \<and> loss [100, 101, 102, 103, 104, 105, 106, 107, 108, 109, 110, 111, 112, 113, 114, 115] ! 15 = Fin 0
   \<and> is_inf (rs [100, 101, 102, 103, 104, 105, 106, 107, 108, 109, 110, 111, 112, 113, 114, 115] ! 15)
   \<and> rsi [100, 101, 102, 103, 104, 105, 106, 107, 108, 109, 110, 111, 112, 113, 114, 115] ! 15 = Fin 100"
proof -
  have h1: "15 < length [100, 101, 102, 103, 104, 105, 106, 107, 108, 109, 110, 111, 112, 113, 114, 115 :: real]"
    by simp
  have h2: "loss [100, 101, 102, 103, 104, 105, 106, 107, 108, 109, 110, 111, 112, 113, 114, 115] ! 15 = Fin 0"
    by code_simp
  have h3: "gain [100, 101, 102, 103, 104, 105, 106, 107, 108, 109, 110, 111, 112, 113, 114, 115] ! 15 \<noteq> Fin 0"
    by code_simp
  show ?thesis
    using h1 h2 h3 zero_loss [OF h1 h2] by blast
qed

text \<open>
  C8, as stated: with fewer than 15 candles the latest RSI is undefined.  It
  fails for the fourteen closes 100, ..., 113: \<open>where\<close> has put 0 in place of the
  undefined first difference, so the window of the fourteenth candle holds 14
  numbers and the latest RSI is 100.
\<close>

theorem latest_rsi_fourteen_candles:
  "length [100, 101, 102, 103, 104, 105, 106, 107, 108, 109, 110, 111, 112, 113 :: real] < 15
   \<and> iloc_last (rsi [100, 101, 102, 103, 104, 105, 106, 107, 108, 109, 110, 111, 112, 113])
       = Inr (Fin 100)
   \<and> iloc_last (rsi [100, 101, 102, 103, 104, 105, 106, 107, 108, 109, 110, 111, 112, 113])
       \<noteq> Inr NaN"
  by code_simp

text \<open>
  C8, amended.  For every sequence of at least one and fewer than 14 candles the
  latest RSI is NaN.
\<close>

theorem latest_rsi_short:
  assumes "cs \<noteq> []" "length cs < 14"
  shows "iloc_last (rsi cs) = Inr NaN"
proof -
  let ?i = "length cs - 1"
  have i: "?i < length cs" using assms(1) by simp
  have "gain cs ! ?i = NaN" using gain_cases [OF i] assms(2) by auto
  then have "rsi cs ! ?i = NaN" using i by (simp add: rsi_nth rs_nth pf_sub_def)
  moreover have "rsi cs \<noteq> []" using assms(1) length_rsi [of cs] by auto
  ultimately show ?thesis
    by (simp add: iloc_last_def last_conv_nth length_rsi)
qed

theorem latest_rsi_short_witness:
  "[100, 101, 102 :: real] \<noteq> [] \<and> length [100, 101, 102 :: real] < 14
   \<and> iloc_last (rsi [100, 101, 102]) = Inr NaN"
proof -
  have h1: "[100, 101, 102 :: real] \<noteq> []" by simp
  have h2: "length [100, 101, 102 :: real] < 14" by simp
  show ?thesis
    using h1 h2 latest_rsi_short [OF h1 h2] by blast
qed

text \<open>
  C1.  For every numeric library, every candle table and every eight forecast
  values, the recommendation is COMPRAR (buy) exactly when the mean of the
  successive forecast differences is above 0 and the last forecast value is
  below the recent moving average; it is VENDER (sell) exactly when that mean
  is below 0 and the last forecast value is above the recent moving average;
  it is RETER (hold) exactly when neither holds.  A mean difference of 0 gives
  RETER, and the decision neither raises nor gives a fourth text.  The
  differences are those of each forecast value and the one before it, after a
  first NaN; their mean is the sum of the seven divided by 7; the recent moving
  average is the mean of the closes of the last four candles, their sum divided
  by 4, which is the rounded \<open>(c1 + c2 + c3 + c4) / 4\<close> when the sum is exact.
\<close>

theorem recommendation_three_way:
  fixes a b c d e f g h :: pyfloat
  defines "fc \<equiv> [a, b, c, d, e, f, g, h]"
  shows "(recommendation np cs fc = Inr COMPRAR \<longleftrightarrow>
            pf_gt (series_mean np (series_diff np fc)) (Fin 0) \<and> pf_lt h (recent_moving_avg np cs))
       \<and> (recommendation np cs fc = Inr VENDER \<longleftrightarrow>
            pf_lt (series_mean np (series_diff np fc)) (Fin 0) \<and> pf_gt h (recent_moving_avg np cs))
       \<and> (recommendation np cs fc = Inr RETER \<longleftrightarrow>
            \<not> (pf_gt (series_mean np (series_diff np fc)) (Fin 0) \<and> pf_lt h (recent_moving_avg np cs))
          \<and> \<not> (pf_lt (series_mean np (series_diff np fc)) (Fin 0) \<and> pf_gt h (recent_moving_avg np cs)))
       \<and> (series_mean np (series_diff np fc) = Fin 0 \<longrightarrow> recommendation np cs fc = Inr RETER)
       \<and> recommendation np cs fc \<in> {Inr COMPRAR, Inr VENDER, Inr RETER}
       \<and> series_diff np fc =
            [NaN, fsub (fl np) b a, fsub (fl np) c b, fsub (fl np) d c, fsub (fl np) e d,
             fsub (fl np) f e, fsub (fl np) g f, fsub (fl np) h g]
       \<and> series_mean np [NaN, Fin d1, Fin d2, Fin d3, Fin d4, Fin d5, Fin d6, Fin d7] =
            fdiv (fl np)
              (array_sum np [Fin 0, Fin d1, Fin d2, Fin d3, Fin d4, Fin d5, Fin d6, Fin d7])
              (Fin 7)
       \<and> recent_moving_avg np (earlier @ [c1, c2, c3, c4]) =
            series_mean np [Fin (close c1), Fin (close c2), Fin (close c3), Fin (close c4)]
       \<and> series_mean np [Fin x1, Fin x2, Fin x3, Fin x4] =
            fdiv (fl np) (array_sum np [Fin x1, Fin x2, Fin x3, Fin x4]) (Fin 4)
       \<and> (array_sum np [Fin (close c1), Fin (close c2), Fin (close c3), Fin (close c4)] =
            Fin (close c1 + close c2 + close c3 + close c4) \<longrightarrow>
          recent_moving_avg np (earlier @ [c1, c2, c3, c4]) =
            fl np ((close c1 + close c2 + close c3 + close c4) / 4))"
proof -
  have l: "iloc_last fc = Inr h" by (simp add: fc_def iloc_last_def)
  have ex: "\<not> (pf_gt (series_mean np (series_diff np fc)) (Fin 0)
              \<and> pf_lt (series_mean np (series_diff np fc)) (Fin 0))"
    using pf_lt_asym by (auto simp: pf_gt_def)
  have decision:
    "(recommendation np cs fc = Inr COMPRAR \<longleftrightarrow>
            pf_gt (series_mean np (series_diff np fc)) (Fin 0) \<and> pf_lt h (recent_moving_avg np cs))
       \<and> (recommendation np cs fc = Inr VENDER \<longleftrightarrow>
            pf_lt (series_mean np (series_diff np fc)) (Fin 0) \<and> pf_gt h (recent_moving_avg np cs))
       \<and> (recommendation np cs fc = Inr RETER \<longleftrightarrow>
            \<not> (pf_gt (series_mean np (series_diff np fc)) (Fin 0) \<and> pf_lt h (recent_moving_avg np cs))
          \<and> \<not> (pf_lt (series_mean np (series_diff np fc)) (Fin 0) \<and> pf_gt h (recent_moving_avg np cs)))
       \<and> (series_mean np (series_diff np fc) = Fin 0 \<longrightarrow> recommendation np cs fc = Inr RETER)
       \<and> recommendation np cs fc \<in> {Inr COMPRAR, Inr VENDER, Inr RETER}"
    using ex strings_distinct
    by (auto simp: recommendation_def buy_condition_def sell_condition_def l pf_gt_def pf_lt_irrefl
             split: bool.splits)
  have differences: "series_diff np fc =
            [NaN, fsub (fl np) b a, fsub (fl np) c b, fsub (fl np) d c, fsub (fl np) e d,
             fsub (fl np) f e, fsub (fl np) g f, fsub (fl np) h g]"
    by (simp add: fc_def)
  have trend: "series_mean np [NaN, Fin d1, Fin d2, Fin d3, Fin d4, Fin d5, Fin d6, Fin d7] =
            fdiv (fl np)
              (array_sum np [Fin 0, Fin d1, Fin d2, Fin d3, Fin d4, Fin d5, Fin d6, Fin d7])
              (Fin 7)"
    by (simp add: series_mean_def notna_def)
  have last4: "recent_moving_avg np (earlier @ [c1, c2, c3, c4]) =
            series_mean np [Fin (close c1), Fin (close c2), Fin (close c3), Fin (close c4)]"
    by (simp add: recent_moving_avg_def lastn_def)
  have mean4: "series_mean np [Fin x1, Fin x2, Fin x3, Fin x4] =
            fdiv (fl np) (array_sum np [Fin x1, Fin x2, Fin x3, Fin x4]) (Fin 4)"
    by (simp add: series_mean_def notna_def)
  have exact4:
    "array_sum np [Fin (close c1), Fin (close c2), Fin (close c3), Fin (close c4)] =
       Fin (close c1 + close c2 + close c3 + close c4) \<longrightarrow>
     recent_moving_avg np (earlier @ [c1, c2, c3, c4]) =
       fl np ((close c1 + close c2 + close c3 + close c4) / 4)"
    by (simp add: recent_moving_avg_def lastn_def series_mean_def notna_def)
  from decision differences trend last4 mean4 exact4 show ?thesis
    by (elim conjE, intro conjI) assumption+
qed

theorem recommendation_three_way_witness:
  "recent_moving_avg numpy64 five_candles = Fin 11
   \<and> recommendation numpy64 five_candles returning_forecast = Inr COMPRAR
   \<and> recommendation numpy64 five_candles falling_forecast = Inr VENDER
   \<and> series_mean numpy64 (series_diff numpy64 [Fin 5, Fin 5, Fin 5, Fin 5, Fin 5, Fin 5, Fin 5, Fin 5]) = Fin 0
   \<and> recommendation numpy64 five_candles [Fin 5, Fin 5, Fin 5, Fin 5, Fin 5, Fin 5, Fin 5, Fin 5] = Inr RETER"
proof -
  let ?k0 = "\<lparr>start = 0, open = 48, high = 51, low = 47, close = 50\<rparr>"
  let ?k1 = "\<lparr>start = 900000, open = 50, high = 50, low = 12, close = 12\<rparr>"
  let ?k2 = "\<lparr>start = 1800000, open = 12, high = 12, low = 10, close = 10\<rparr>"
  let ?k3 = "\<lparr>start = 2700000, open = 10, high = 11, low = 10, close = 11\<rparr>"
  let ?k4 = "\<lparr>start = 3600000, open = 11, high = 12, low = 10, close = 11\<rparr>"
  have table: "five_candles = [?k0] @ [?k1, ?k2, ?k3, ?k4]"
    by (simp add: five_candles_def)
  have total: "array_sum numpy64 [Fin (close ?k1), Fin (close ?k2), Fin (close ?k3), Fin (close ?k4)]
                 = Fin (close ?k1 + close ?k2 + close ?k3 + close ?k4)"
    by (simp add: round64_eval numpy64_eval)
  have quotient: "fl numpy64 ((close ?k1 + close ?k2 + close ?k3 + close ?k4) / 4) = Fin 11"
    by (simp add: round64_eval numpy64_def)
  have r: "returning_forecast = [round64 5.1, round64 8.0, round64 2.4, round64 5.1, round64 8.2, round64 5.4, round64 3.9, round64 5.1]"
    by (simp add: returning_forecast_def)
  have f: "falling_forecast = [round64 20, round64 19, round64 18, round64 17, round64 16, round64 15, round64 14, round64 13]"
    by (simp add: falling_forecast_def)
  have below: "pf_lt (round64 5.1) (Fin 11)"
    by (simp add: round64_eval)
  have above: "pf_gt (round64 13) (Fin 11)"
    by (simp add: round64_eval pf_gt_def)
  note buying = recommendation_three_way
            [where np = numpy64 and cs = five_candles and a = "round64 5.1" and b = "round64 8.0"
               and c = "round64 2.4" and d = "round64 5.1" and e = "round64 8.2"
               and f = "round64 5.4" and g = "round64 3.9" and h = "round64 5.1"
               and earlier = "[?k0]" and ?c1.0 = ?k1 and ?c2.0 = ?k2 and ?c3.0 = ?k3
               and ?c4.0 = ?k4 and ?d1.0 = 0 and ?d2.0 = 0 and ?d3.0 = 0 and ?d4.0 = 0
               and ?d5.0 = 0 and ?d6.0 = 0 and ?d7.0 = 0 and ?x1.0 = 0 and ?x2.0 = 0
               and ?x3.0 = 0 and ?x4.0 = 0]
  note pin = buying [THEN conjunct2, THEN conjunct2, THEN conjunct2, THEN conjunct2,
                     THEN conjunct2, THEN conjunct2, THEN conjunct2, THEN conjunct2,
                     THEN conjunct2, rule_format, OF total]
  have avg: "recent_moving_avg numpy64 five_candles = Fin 11"
    by (simp only: table pin quotient)
  have buy: "recommendation numpy64 five_candles returning_forecast = Inr COMPRAR"
    using buying [THEN conjunct1] below
    by (simp only: r [symmetric] returning_trend avg) (simp add: pf_gt_def)
  have sell: "recommendation numpy64 five_candles falling_forecast = Inr VENDER"
    using recommendation_three_way
            [where np = numpy64 and cs = five_candles and a = "round64 20" and b = "round64 19"
               and c = "round64 18" and d = "round64 17" and e = "round64 16"
               and f = "round64 15" and g = "round64 14" and h = "round64 13",
             THEN conjunct2, THEN conjunct1]
          above
    by (simp only: f [symmetric] falling_trend avg) simp
  have hold: "recommendation numpy64 five_candles [Fin 5, Fin 5, Fin 5, Fin 5, Fin 5, Fin 5, Fin 5, Fin 5] = Inr RETER"
    using recommendation_three_way
            [where np = numpy64 and cs = five_candles and a = "Fin 5" and b = "Fin 5"
               and c = "Fin 5" and d = "Fin 5" and e = "Fin 5"
               and f = "Fin 5" and g = "Fin 5" and h = "Fin 5",
             THEN conjunct2, THEN conjunct2, THEN conjunct2, THEN conjunct1]
          flat_trend
    by blast
  from avg buy sell flat_trend hold show ?thesis by (intro conjI)
qed



text \<open>
  C6.  When the provider returns prices that give at least one candle and the
  estimator returns its eight values, the frame of the forecast has eight rows,
  row \<open>k\<close> (from 1 to 8) carries the start of the last candle plus \<open>15 k\<close>
  minutes, and only the values of the rows come from the estimator.
\<close>

theorem forecast_timestamps:
  assumes "map_of cryptocurrencies selected_crypto = Some crypto_id"
    and "cg crypto_id ''usd'' (end_timestamp - 30 * 3600) end_timestamp = Inr prices"
    and "ohlc prices \<noteq> []"
    and "arima (map close (training_data (ohlc prices))) forecast_steps = Inr fc"
    and "length fc = forecast_steps"
  shows "\<exists>fr. compute cg arima end_timestamp selected_crypto = Inr fr
          \<and> length (future fr) = 8
          \<and> (\<forall>k. 1 \<le> k \<and> k \<le> 8 \<longrightarrow>
                 fst (future fr ! (k - 1)) = start (last (ohlc prices)) + 15 * 60000 * int k)
          \<and> map snd (future fr) = fc"
proof -
  let ?cs = "ohlc prices"
  let ?t = "start (last ?cs)"
  have "rsi (map close ?cs) \<noteq> []"
    using assms(3) length_rsi [of "map close ?cs"] by auto
  then have latest: "iloc_last (rsi (map close ?cs)) = Inr (last (rsi (map close ?cs)))"
    by (simp add: iloc_last_def)
  have tr: "training_data ?cs \<noteq> []" "last (training_data ?cs) = last ?cs"
    using last_lastn [OF assms(3), of 96] by (simp_all add: training_data_def)
  then have ix: "index_last (map start (training_data ?cs)) = Inr ?t"
    by (simp add: index_last_def last_map)
  have len: "length fc = 8" using assms(5) by (simp add: forecast_steps_def)
  have fdf: "future_df (future_timestamps ?t) fc = Inr (zip (future_timestamps ?t) fc)"
    using len by (simp add: future_df_def length_future_timestamps)
  have prices: "cg crypto_id ''usd'' (end_timestamp - 108000) end_timestamp = Inr prices"
    using assms(2) by simp
  let ?fr = "\<lparr>candles = ?cs, rsi_column = rsi (map close ?cs),
           latest_rsi = last (rsi (map close ?cs)), forecast = fc,
           future = zip (future_timestamps ?t) fc,
           max_future_price = series_max (map snd (zip (future_timestamps ?t) fc)),
           max_future_time = idxmax (zip (future_timestamps ?t) fc)\<rparr>"
  have c: "compute cg arima end_timestamp selected_crypto = Inr ?fr"
    by (simp add: compute_def assms(1,4) prices latest ix fdf)
  have n: "length (future ?fr) = 8"
    using len by (simp add: length_future_timestamps)
  have v: "map snd (future ?fr) = fc"
    using len by (simp add: length_future_timestamps)
  have ts: "\<forall>k. 1 \<le> k \<and> k \<le> 8 \<longrightarrow> fst (future ?fr ! (k - 1)) = ?t + 15 * 60000 * int k"
  proof (intro allI impI)
    fix k :: nat
    assume k: "1 \<le> k \<and> k \<le> 8"
    then have k8: "k - 1 < 8" by auto
    then have "fst (zip (future_timestamps ?t) fc ! (k - 1)) = future_timestamps ?t ! (k - 1)"
      using len by (simp add: length_future_timestamps)
    also have "\<dots> = ?t + 15 * 60000 * int (Suc (k - 1))"
      using k8 by (rule future_timestamps_nth)
    also have "Suc (k - 1) = k" using k by auto
    finally show "fst (future ?fr ! (k - 1)) = ?t + 15 * 60000 * int k" by simp
  qed
  from c n ts v show ?thesis by blast
qed

theorem forecast_timestamps_witness:
  "map_of cryptocurrencies ''Bitcoin'' = Some ''bitcoin''
   \<and> three_prices ''bitcoin'' ''usd'' (1700000000 - 30 * 3600) 1700000000 = Inr [(1700000100000, 37000), (1700000400000, 37010), (1700002000000, 36990)]
   \<and> ohlc [(1700000100000, 37000), (1700000400000, 37010), (1700002000000, 36990)] \<noteq> []
   \<and> start (last (ohlc [(1700000100000, 37000), (1700000400000, 37010), (1700002000000, 36990)])) = 1699991100000
   \<and> (\<exists>fr. compute three_prices naive_forecast 1700000000 ''Bitcoin'' = Inr fr
          \<and> length (future fr) = 8
          \<and> (\<forall>k. 1 \<le> k \<and> k \<le> 8 \<longrightarrow>
                 fst (future fr ! (k - 1)) =
                   start (last (ohlc [(1700000100000, 37000), (1700000400000, 37010), (1700002000000, 36990)])) + 15 * 60000 * int k)
          \<and> map snd (future fr) = replicate 8 (Fin 36990))"
proof -
  have h1: "map_of cryptocurrencies ''Bitcoin'' = Some ''bitcoin''"
    by (simp add: cryptocurrencies_def)
  have h2: "three_prices ''bitcoin'' ''usd'' (1700000000 - 30 * 3600) 1700000000 = Inr [(1700000100000, 37000), (1700000400000, 37010), (1700002000000, 36990)]"
    by (simp add: three_prices_def)
  have h3: "ohlc [(1700000100000, 37000), (1700000400000, 37010), (1700002000000, 36990)] \<noteq> []"
    by code_simp
  have h4: "naive_forecast (map close (training_data (ohlc [(1700000100000, 37000), (1700000400000, 37010), (1700002000000, 36990)]))) forecast_steps
              = Inr (replicate 8 (Fin 36990))"
    by code_simp
  have h5: "length (replicate 8 (Fin 36990)) = forecast_steps"
    by (simp add: forecast_steps_def)
  have l: "start (last (ohlc [(1700000100000, 37000), (1700000400000, 37010), (1700002000000, 36990)])) = 1699991100000"
    by code_simp
  note f = forecast_timestamps
      [where cg = three_prices and arima = naive_forecast and end_timestamp = 1700000000
         and fc = "replicate 8 (Fin 36990)", OF h1 h2 h3 h4 h5]
  show ?thesis
    by (rule conjI [OF h1 conjI [OF h2 conjI [OF h3 conjI [OF l f]]]])
qed

text \<open>
  C7.  For every list of price samples the starts of the candles are strictly
  increasing, hence pairwise distinct, and a quarter of an hour into which no
  sample falls (after the shift by three hours) is the start of no candle.
\<close>

theorem candles_strictly_increasing:
  "sorted_wrt (<) (map start (ohlc prices))
   \<and> distinct (map start (ohlc prices))
   \<and> (\<forall>b. (\<forall>s \<in> set prices. bin_of (fst s - 3 * 3600000) \<noteq> b) \<longrightarrow>
            b \<notin> set (map start (ohlc prices)))"
  using sorted_starts [of prices] start_has_sample [of _ prices]
  by (auto simp: strict_sorted_iff simp del: set_map)

theorem candles_strictly_increasing_witness:
  "map start (ohlc [(1700000100000, 37000), (1700000400000, 37010), (1700002000000, 36990)]) = [1699989300000, 1699991100000]
   \<and> sorted_wrt (<) (map start (ohlc [(1700000100000, 37000), (1700000400000, 37010), (1700002000000, 36990)]))
   \<and> distinct (map start (ohlc [(1700000100000, 37000), (1700000400000, 37010), (1700002000000, 36990)]))
   \<and> 1699990200000 \<notin> set (map start (ohlc [(1700000100000, 37000), (1700000400000, 37010), (1700002000000, 36990)]))"
proof -
  have e: "\<forall>s \<in> set [(1700000100000, 37000), (1700000400000, 37010), (1700002000000, 36990)]. bin_of (fst s - 3 * 3600000) \<noteq> (1699990200000 :: int)"
    by (simp add: bin_of_def)
  have m: "map start (ohlc [(1700000100000, 37000), (1700000400000, 37010), (1700002000000, 36990)]) = [1699989300000, 1699991100000]"
    by code_simp
  show ?thesis
    using e m candles_strictly_increasing [of "[(1700000100000, 37000), (1700000400000, 37010), (1700002000000, 36990)]"] by blast
qed

text \<open>
  C2, as stated: on an empty price list the run stops with an error that names
  the selected coin.  With Bitcoin selected the run stops before the figure is
  drawn, but with the IndexError of \<open>iloc[-1]\<close>, whose text does not name the
  coin.
\<close>

theorem empty_prices_error_without_coin:
  "run no_prices naive_forecast 1700000000 ''Bitcoin''
     = ([], Some (IndexError ''single positional indexer is out-of-bounds''))
   \<and> \<not> mentions ''Bitcoin'' (message (IndexError ''single positional indexer is out-of-bounds''))"
  by code_simp

text \<open>
  C2, amended.  For every coin of the select box and every estimator: when the
  provider returns an empty price list, the run writes nothing (no figure) and
  stops with the IndexError that the read of the latest RSI raises on the empty
  candle table; the text of that error names neither the selected coin nor its
  provider identifier.
\<close>

theorem empty_prices_abort:
  assumes "map_of cryptocurrencies selected_crypto = Some crypto_id"
    and "cg crypto_id ''usd'' (end_timestamp - 30 * 3600) end_timestamp = Inr []"
  shows "run cg arima end_timestamp selected_crypto =
           ([], Some (IndexError ''single positional indexer is out-of-bounds''))
       \<and> \<not> mentions selected_crypto (message (IndexError ''single positional indexer is out-of-bounds''))
       \<and> \<not> mentions crypto_id (message (IndexError ''single positional indexer is out-of-bounds''))"
proof -
  have prices: "cg crypto_id ''usd'' (end_timestamp - 108000) end_timestamp = Inr []"
    using assms(2) by simp
  have "run cg arima end_timestamp selected_crypto =
           ([], Some (IndexError ''single positional indexer is out-of-bounds''))"
    by (simp add: run_def compute_def assms(1) prices ohlc_Nil rsi_Nil iloc_last_def)
  moreover from assms(1) have "(selected_crypto, crypto_id) \<in> set cryptocurrencies"
    by (rule map_of_SomeD)
  then have "\<not> mentions selected_crypto ''single positional indexer is out-of-bounds''
     \<and> \<not> mentions crypto_id ''single positional indexer is out-of-bounds''"
    unfolding cryptocurrencies_def
    apply simp
    apply (elim disjE conjE)
    by (simp_all add: mentions_def)
  ultimately show ?thesis by simp
qed

theorem empty_prices_abort_witness:
  "map_of cryptocurrencies ''Kaspa'' = Some ''kaspa''
   \<and> no_prices ''kaspa'' ''usd'' (1700000000 - 30 * 3600) 1700000000 = Inr []
   \<and> run no_prices naive_forecast 1700000000 ''Kaspa''
       = ([], Some (IndexError ''single positional indexer is out-of-bounds''))
   \<and> \<not> mentions ''Kaspa'' (message (IndexError ''single positional indexer is out-of-bounds''))"
proof -
  have h1: "map_of cryptocurrencies ''Kaspa'' = Some ''kaspa''"
    by (simp add: cryptocurrencies_def)
  have h2: "no_prices ''kaspa'' ''usd'' (1700000000 - 30 * 3600) 1700000000 = Inr []"
    by (simp add: no_prices_def)
  note e = empty_prices_abort
      [where cg = no_prices and arima = naive_forecast and end_timestamp = 1700000000, OF h1 h2]
  show ?thesis
    by (rule conjI [OF h1 conjI [OF h2 conjI [OF conjunct1 [OF e] conjunct1 [OF conjunct2 [OF e]]]]])
qed

end
